theory Spec2Isabelle
  imports Main
begin

section \<open>Python text\<close>

text \<open>
  A Python \<open>str\<close> is modelled by the UTF-8 encoding of its code points, held in a
  \<^typ>\<open>string\<close>: ASCII text is written as it stands in \<open>main.py\<close>, and a code
  point beyond ASCII (the emoji of the script templates) is written \<open>utf8 n\<close>.
  The operations of \<open>str\<close> that the program uses are defined on this encoding so that
  they count and cut code points, as Python does.
\<close>

definition utf8 :: "nat \<Rightarrow> string" where
  "utf8 n =
     (if n < 0x80 then [char_of n]
      else if n < 0x800 then [char_of (0xC0 + n div 64), char_of (0x80 + n mod 64)]
      else if n < 0x10000 then
        [char_of (0xE0 + n div 4096), char_of (0x80 + n div 64 mod 64), char_of (0x80 + n mod 64)]
      else
        [char_of (0xF0 + n div 262144), char_of (0x80 + n div 4096 mod 64),
         char_of (0x80 + n div 64 mod 64), char_of (0x80 + n mod 64)])"

definition continuation_byte :: "char \<Rightarrow> bool" where
  "continuation_byte c = (0x80 \<le> (of_char c :: nat) \<and> (of_char c :: nat) < 0xC0)"

text \<open>\<open>len(s)\<close>: the number of code points, that is of bytes that start one.\<close>

definition py_len :: "string \<Rightarrow> nat" where
  "py_len s = length (filter (\<lambda>c. \<not> continuation_byte c) s)"

text \<open>\<open>str(n)\<close> for a Python \<open>int\<close>.\<close>

fun digits :: "nat \<Rightarrow> string" where
  "digits n = (if n < 10 then [char_of (48 + n)] else digits (n div 10) @ [char_of (48 + n mod 10)])"

declare digits.simps [simp del]

definition str_int :: "int \<Rightarrow> string" where
  "str_int i = (if i < 0 then CHR ''-'' # digits (nat (- i)) else digits (nat i))"

text \<open>
  \<open>s.strip()\<close> removes the white space of Unicode at both ends: U+0009 to U+000D,
  U+001C to U+0020, U+0085, U+00A0, U+1680, U+2000 to U+200A, U+2028, U+2029, U+202F,
  U+205F and U+3000. \<open>ws_len s\<close> is the number of bytes of the white-space code point
  that starts \<open>s\<close> (0 when there is none); \<open>ws_len_rev\<close> reads the same code points
  backwards, for the right end.
\<close>

definition ws_len :: "string \<Rightarrow> nat" where
  "ws_len s =
     (case map (of_char :: char \<Rightarrow> nat) (take 3 s) of
        [] \<Rightarrow> 0
      | a # r \<Rightarrow>
          if (9 \<le> a \<and> a \<le> 13) \<or> (28 \<le> a \<and> a \<le> 32) then 1
          else (case r of
                  [] \<Rightarrow> 0
                | b # r' \<Rightarrow>
                    if a = 0xC2 \<and> (b = 0x85 \<or> b = 0xA0) then 2
                    else (case r' of
                            [] \<Rightarrow> 0
                          | c # _ \<Rightarrow>
                              if (a = 0xE1 \<and> b = 0x9A \<and> c = 0x80)
                               \<or> (a = 0xE2 \<and> b = 0x80 \<and>
                                    ((0x80 \<le> c \<and> c \<le> 0x8A) \<or> c = 0xA8 \<or> c = 0xA9 \<or> c = 0xAF))
                               \<or> (a = 0xE2 \<and> b = 0x81 \<and> c = 0x9F)
                               \<or> (a = 0xE3 \<and> b = 0x80 \<and> c = 0x80)
                              then 3 else 0)))"

definition ws_len_rev :: "string \<Rightarrow> nat" where
  "ws_len_rev s =
     (case map (of_char :: char \<Rightarrow> nat) (take 3 s) of
        [] \<Rightarrow> 0
      | c # r \<Rightarrow>
          if (9 \<le> c \<and> c \<le> 13) \<or> (28 \<le> c \<and> c \<le> 32) then 1
          else (case r of
                  [] \<Rightarrow> 0
                | b # r' \<Rightarrow>
                    if b = 0xC2 \<and> (c = 0x85 \<or> c = 0xA0) then 2
                    else (case r' of
                            [] \<Rightarrow> 0
                          | a # _ \<Rightarrow>
                              if (a = 0xE1 \<and> b = 0x9A \<and> c = 0x80)
                               \<or> (a = 0xE2 \<and> b = 0x80 \<and>
                                    ((0x80 \<le> c \<and> c \<le> 0x8A) \<or> c = 0xA8 \<or> c = 0xA9 \<or> c = 0xAF))
                               \<or> (a = 0xE2 \<and> b = 0x81 \<and> c = 0x9F)
                               \<or> (a = 0xE3 \<and> b = 0x80 \<and> c = 0x80)
                              then 3 else 0)))"

fun strip_with :: "(string \<Rightarrow> nat) \<Rightarrow> string \<Rightarrow> string" where
  "strip_with f [] = []"
| "strip_with f (c # cs) =
     (if f (c # cs) = 0 then c # cs else strip_with f (drop (f (c # cs) - 1) cs))"

definition lstrip :: "string \<Rightarrow> string" where
  "lstrip s = strip_with ws_len s"

definition rstrip :: "string \<Rightarrow> string" where
  "rstrip s = rev (strip_with ws_len_rev (rev s))"

definition strip :: "string \<Rightarrow> string" where
  "strip s = rstrip (lstrip s)"

text \<open>
  \<open>s.split(sep)\<close> for a separator of one character: the pieces between the separators,
  never an empty list.
\<close>

fun split_on :: "char \<Rightarrow> string \<Rightarrow> string list" where
  "split_on sep [] = [] # []"
| "split_on sep (c # cs) =
     (if c = sep then [] # split_on sep cs
      else (case split_on sep cs of [] \<Rightarrow> [c] # [] | p # ps \<Rightarrow> (c # p) # ps))"

text \<open>
  \<open>s.splitlines()\<close> cuts at \<open>\r\n\<close>, \<open>\n\<close>, \<open>\r\<close>, \<open>\v\<close>, \<open>\f\<close>, U+001C, U+001D,
  U+001E, U+0085, U+2028 and U+2029, and gives no empty last line.
\<close>

definition line_break_len :: "string \<Rightarrow> nat" where
  "line_break_len s =
     (case map (of_char :: char \<Rightarrow> nat) (take 3 s) of
        [] \<Rightarrow> 0
      | a # r \<Rightarrow>
          if a = 13 \<and> (case r of [] \<Rightarrow> False | b # _ \<Rightarrow> b = 10) then 2
          else if (10 \<le> a \<and> a \<le> 13) \<or> (28 \<le> a \<and> a \<le> 30) then 1
          else (case r of
                  [] \<Rightarrow> 0
                | b # r' \<Rightarrow>
                    if a = 0xC2 \<and> b = 0x85 then 2
                    else (case r' of
                            [] \<Rightarrow> 0
                          | c # _ \<Rightarrow>
                              if a = 0xE2 \<and> b = 0x80 \<and> (c = 0xA8 \<or> c = 0xA9) then 3 else 0)))"

fun splitlines_from :: "string \<Rightarrow> string \<Rightarrow> string list" where
  "splitlines_from cur [] = (if cur = [] then [] else [rev cur])"
| "splitlines_from cur (c # cs) =
     (if line_break_len (c # cs) = 0 then splitlines_from (c # cur) cs
      else rev cur # splitlines_from [] (drop (line_break_len (c # cs) - 1) cs))"

definition splitlines :: "string \<Rightarrow> string list" where
  "splitlines s = splitlines_from [] s"

text \<open>
  \<open>repr(s)\<close> of a \<open>str\<close> and of a list of them, which the message of
  \<open>subprocess.TimeoutExpired\<close> prints. Quotes, the backslash and the ASCII control
  characters are escaped as Python does; every other byte is kept, which is what Python
  does for the printable code points.
\<close>

definition hex_digit :: "nat \<Rightarrow> char" where
  "hex_digit d = (if d < 10 then char_of (48 + d) else char_of (87 + d))"

definition repr_char :: "char \<Rightarrow> char \<Rightarrow> string" where
  "repr_char q c =
     (if c = CHR 0x5C then [CHR 0x5C, CHR 0x5C]
      else if c = q then [CHR 0x5C, q]
      else if c = CHR 0x0A then [CHR 0x5C, CHR ''n'']
      else if c = CHR 0x0D then [CHR 0x5C, CHR ''r'']
      else if c = CHR 0x09 then [CHR 0x5C, CHR ''t'']
      else if (of_char c :: nat) < 32 \<or> (of_char c :: nat) = 127 then
        [CHR 0x5C, CHR ''x'', hex_digit (of_char c div 16), hex_digit (of_char c mod 16)]
      else [c])"

definition py_repr :: "string \<Rightarrow> string" where
  "py_repr s =
     (let q = (if CHR 0x27 \<in> set s \<and> CHR 0x22 \<notin> set s then CHR 0x22 else CHR 0x27)
      in q # concat (map (repr_char q) s) @ [q])"

fun join_with :: "string \<Rightarrow> string list \<Rightarrow> string" where
  "join_with sep [] = []"
| "join_with sep [x] = x"
| "join_with sep (x # y # ys) = x @ sep @ join_with sep (y # ys)"

text \<open>\<open>text_lines\<close> writes a text line by line: the lines, with \<open>\n\<close> between them.\<close>

definition text_lines :: "string list \<Rightarrow> string" where
  "text_lines ls = join_with [CHR 0x0A] ls"

definition py_repr_list :: "string list \<Rightarrow> string" where
  "py_repr_list xs = ''['' @ join_with '', '' (map py_repr xs) @ '']''"

text \<open>
  Decoding. The \<open>utf-8\<close> codec accepts exactly the well-formed byte sequences of the
  Unicode standard: no stray continuation byte, no overlong form, no surrogate, nothing
  beyond U+10FFFF. \<open>utf8_seq_len s\<close> is the number of bytes of the well-formed
  sequence that starts \<open>s\<close> (0 when there is none). The text decoded from accepted
  bytes is modelled by these bytes themselves.
\<close>

definition utf8_seq_len :: "string \<Rightarrow> nat" where
  "utf8_seq_len s =
     (case map (of_char :: char \<Rightarrow> nat) (take 4 s) of
        [] \<Rightarrow> 0
      | a # r1 \<Rightarrow>
          if a < 0x80 then 1
          else (case r1 of
                  [] \<Rightarrow> 0
                | b # r2 \<Rightarrow>
                    if 0xC2 \<le> a \<and> a \<le> 0xDF then (if 0x80 \<le> b \<and> b \<le> 0xBF then 2 else 0)
                    else (case r2 of
                            [] \<Rightarrow> 0
                          | c # r3 \<Rightarrow>
                              if 0xE0 \<le> a \<and> a \<le> 0xEF then
                                (if (if a = 0xE0 then 0xA0 else 0x80) \<le> b
                                    \<and> b \<le> (if a = 0xED then 0x9F else 0xBF)
                                    \<and> 0x80 \<le> c \<and> c \<le> 0xBF
                                 then 3 else 0)
                              else (case r3 of
                                      [] \<Rightarrow> 0
                                    | d # r4 \<Rightarrow>
                                        if 0xF0 \<le> a \<and> a \<le> 0xF4
                                           \<and> (if a = 0xF0 then 0x90 else 0x80) \<le> b
                                           \<and> b \<le> (if a = 0xF4 then 0x8F else 0xBF)
                                           \<and> 0x80 \<le> c \<and> c \<le> 0xBF
                                           \<and> 0x80 \<le> d \<and> d \<le> 0xBF
                                        then 4 else 0))))"

fun utf8_ok :: "string \<Rightarrow> bool" where
  "utf8_ok [] = True"
| "utf8_ok (c # cs) =
     (utf8_seq_len (c # cs) \<noteq> 0 \<and> utf8_ok (drop (utf8_seq_len (c # cs) - 1) cs))"

text \<open>
  Text mode reads with universal newlines: in the decoded text every \<open>\r\n\<close> and
  every other \<open>\r\<close> becomes \<open>\n\<close>.
\<close>

fun translate_newlines :: "string \<Rightarrow> string" where
  "translate_newlines [] = []"
| "translate_newlines (c # cs) =
     (if c = CHR 0x0D
      then CHR 0x0A #
           (if cs \<noteq> [] \<and> hd cs = CHR 0x0A then translate_newlines (tl cs)
            else translate_newlines cs)
      else c # translate_newlines cs)"

section \<open>Python values\<close>

text \<open>
  The functions of \<open>main.py\<close> return dictionaries with string keys; a dictionary is the
  list of its items in the order of the literal that builds it.
\<close>

datatype pyval =
    PNone
  | PBool bool
  | PInt int
  | PStr string
  | PDict "(string \<times> pyval) list"

type_synonym pydict = "(string \<times> pyval) list"

definition keys :: "pydict \<Rightarrow> string list" where
  "keys d = map fst d"

text \<open>
  Exceptions. \<open>subprocess.TimeoutExpired\<close> carries the command and the timeout;
  \<open>Exception t m\<close> is any other instance of \<open>Exception\<close>, of the class named \<open>t\<close> and
  with \<open>str(e) = m\<close>; \<open>BaseException t m\<close> is an exception outside \<open>Exception\<close>
  (\<open>KeyboardInterrupt\<close>, \<open>SystemExit\<close>), which \<open>except Exception\<close> lets through and a
  bare \<open>except:\<close> catches.
\<close>

datatype exn =
    TimeoutExpired "string list" int
  | Exception string string
  | BaseException string string

fun str_exn :: "exn \<Rightarrow> string" where
  "str_exn (TimeoutExpired cmd t) =
     ''Command '' @ [CHR 0x27] @ py_repr_list cmd @ [CHR 0x27] @ '' timed out after '' @ str_int t
       @ '' seconds''"
| "str_exn (Exception t m) = m"
| "str_exn (BaseException t m) = m"

fun type_name :: "exn \<Rightarrow> string" where
  "type_name (TimeoutExpired cmd t) = ''TimeoutExpired''"
| "type_name (Exception t m) = t"
| "type_name (BaseException t m) = t"

fun is_TimeoutExpired :: "exn \<Rightarrow> bool" where
  "is_TimeoutExpired (TimeoutExpired cmd t) = True"
| "is_TimeoutExpired e = False"

fun is_Exception :: "exn \<Rightarrow> bool" where
  "is_Exception (BaseException t m) = False"
| "is_Exception e = True"

definition any_exception :: "exn \<Rightarrow> bool" where
  "any_exception e = True"

section \<open>The host: files and child processes\<close>

text \<open>
  What \<open>main.py\<close> does to its host goes through four calls: \<open>open(path, 'w')\<close> with a
  write, \<open>subprocess.run\<close>, \<open>os.remove\<close> and \<open>Path.exists\<close>. The host is a record of
  the files of the working directory, of what each of these calls answers, and of the
  calls made so far.
\<close>

datatype fsnode = File string | Dir

record completed_process =
  returncode :: int
  stdout :: string
  stderr :: string

text \<open>
  A child process: left alone it exits after \<open>runtime\<close> time units with the status
  \<open>exit_status\<close>, having written the bytes \<open>stdout_bytes\<close> and \<open>stderr_bytes\<close> to its
  two streams; the pipes of these streams are at end of file after \<open>pipes_close\<close> time
  units (a process that has inherited them may hold them open after the child has
  exited); and \<open>t\<close> time units after its start the child, with the processes it has
  started, has turned the files \<open>f\<close> into \<open>effect t f\<close>.
\<close>

record child =
  runtime :: nat
  pipes_close :: nat
  exit_status :: int
  stdout_bytes :: string
  stderr_bytes :: string
  effect :: "nat \<Rightarrow> (string \<rightharpoonup> fsnode) \<Rightarrow> (string \<rightharpoonup> fsnode)"

text \<open>
  The encoding of a text-mode call: \<open>encoding='utf-8'\<close>, or the encoding of the
  locale when the call names none.
\<close>

datatype encoding = Locale | Utf8

datatype event =
    OpenWrite string string
  | SubprocessRun "string list" "int option"
  | OsRemove string

text \<open>
  \<open>programs h argv f\<close> is what starting the command \<open>argv\<close> on the files \<open>f\<close> gives:
  the exception of a command that cannot be started (the executable is missing) or a
  child. \<open>open_error\<close>, \<open>write_error\<close> and \<open>remove_error\<close> say which paths the host
  refuses to open for writing, to write to once open, and to remove.
  \<open>locale_decode\<close> is the codec of the locale: the text of the bytes, or the message
  of its \<open>UnicodeDecodeError\<close>; \<open>decode_message\<close> is the message with which the
  \<open>utf-8\<close> codec refuses bytes that are not well formed.
\<close>

record host =
  os_name :: string
  fs :: "string \<rightharpoonup> fsnode"
  open_error :: "string \<Rightarrow> exn option"
  write_error :: "string \<Rightarrow> exn option"
  remove_error :: "string \<Rightarrow> exn option"
  programs :: "string list \<Rightarrow> (string \<rightharpoonup> fsnode) \<Rightarrow> exn + child"
  locale_decode :: "string \<Rightarrow> string + string"
  decode_message :: "string \<Rightarrow> string"
  trace :: "event list"

text \<open>
  A Python computation takes the host and gives back either the exception it raises or
  the value it returns, with the host as it has left it.
\<close>

type_synonym 'a py = "host \<Rightarrow> (exn + 'a) \<times> host"

definition py_return :: "'a \<Rightarrow> 'a py" where
  "py_return x h = (Inr x, h)"

definition py_raise :: "exn \<Rightarrow> 'a py" where
  "py_raise e h = (Inl e, h)"

definition py_bind :: "'a py \<Rightarrow> ('a \<Rightarrow> 'b py) \<Rightarrow> 'b py" where
  "py_bind m f h = (case m h of (Inl e, h') \<Rightarrow> (Inl e, h') | (Inr x, h') \<Rightarrow> f x h')"

text \<open>
  \<open>try: body except C1: ... except C2: ...\<close>: the first clause whose class matches the
  exception handles it; an exception that no clause matches goes on.
\<close>

definition try_except :: "'a py \<Rightarrow> ((exn \<Rightarrow> bool) \<times> (exn \<Rightarrow> 'a py)) list \<Rightarrow> 'a py" where
  "try_except body clauses h =
     (case body h of
        (Inr x, h') \<Rightarrow> (Inr x, h')
      | (Inl e, h') \<Rightarrow>
          (case find (\<lambda>clause. fst clause e) clauses of
             None \<Rightarrow> (Inl e, h')
           | Some clause \<Rightarrow> snd clause e h'))"

text \<open>
  \<open>try: body finally: cleanup\<close>: the cleanup runs on every way out of the body; the
  outcome is the body's, unless the cleanup itself raises.
\<close>

definition try_finally :: "'a py \<Rightarrow> unit py \<Rightarrow> 'a py" where
  "try_finally body cleanup h =
     (case body h of
        (r, h') \<Rightarrow>
          (case cleanup h' of
             (Inl e, h'') \<Rightarrow> (Inl e, h'')
           | (Inr u, h'') \<Rightarrow> (r, h'')))"

text \<open>\<open>xs[0]\<close> raises \<open>IndexError\<close> on an empty list.\<close>

definition index0 :: "'a list \<Rightarrow> 'a py" where
  "index0 xs =
     (case xs of
        [] \<Rightarrow> py_raise (Exception ''IndexError'' ''list index out of range'')
      | x # rest \<Rightarrow> py_return x)"

text \<open>
  \<open>with open(path, 'w') as f: f.write(content)\<close>. Opening a directory fails; opening a
  path the host refuses fails and leaves the files as they are; a write that fails
  leaves the file created and empty. The messages of the errors the model builds itself
  follow the POSIX wording.
\<close>

definition open_write :: "string \<Rightarrow> string \<Rightarrow> unit py" where
  "open_write path content h =
     (let h0 = h\<lparr>trace := trace h @ [OpenWrite path content]\<rparr> in
      case fs h path of
        Some Dir \<Rightarrow>
          (Inl (Exception ''IsADirectoryError'' (''[Errno 21] Is a directory: '' @ py_repr path)), h0)
      | _ \<Rightarrow>
          (case open_error h path of
             Some e \<Rightarrow> (Inl e, h0)
           | None \<Rightarrow>
               (case write_error h path of
                  Some e \<Rightarrow> (Inl e, h0\<lparr>fs := (fs h)(path \<mapsto> File [])\<rparr>)
                | None \<Rightarrow> (Inr (), h0\<lparr>fs := (fs h)(path \<mapsto> File content)\<rparr>))))"

text \<open>
  \<open>os.remove(path)\<close>: fails when nothing is at the path, when a directory is, and when
  the host refuses; otherwise the file is gone.
\<close>

definition os_remove :: "string \<Rightarrow> unit py" where
  "os_remove path h =
     (let h0 = h\<lparr>trace := trace h @ [OsRemove path]\<rparr> in
      case fs h path of
        None \<Rightarrow>
          (Inl (Exception ''FileNotFoundError''
                  (''[Errno 2] No such file or directory: '' @ py_repr path)), h0)
      | Some Dir \<Rightarrow>
          (Inl (Exception ''IsADirectoryError'' (''[Errno 21] Is a directory: '' @ py_repr path)), h0)
      | Some (File content) \<Rightarrow>
          (case remove_error h path of
             Some e \<Rightarrow> (Inl e, h0)
           | None \<Rightarrow> (Inr (), h0\<lparr>fs := (fs h)(path := None)\<rparr>)))"

text \<open>
  What a text-mode call makes of the bytes of a stream: they are decoded, strictly, and
  the line ends of the text are translated.
\<close>

definition decode :: "host \<Rightarrow> encoding \<Rightarrow> string \<Rightarrow> exn + string" where
  "decode h enc bytes =
     (case enc of
        Utf8 \<Rightarrow>
          if utf8_ok bytes then Inr bytes
          else Inl (Exception ''UnicodeDecodeError'' (decode_message h bytes))
      | Locale \<Rightarrow>
          (case locale_decode h bytes of
             Inl message \<Rightarrow> Inl (Exception ''UnicodeDecodeError'' message)
           | Inr decoded \<Rightarrow> Inr decoded))"

definition read_streams :: "host \<Rightarrow> encoding \<Rightarrow> child \<Rightarrow> exn + completed_process" where
  "read_streams h enc c =
     (case decode h enc (stdout_bytes c) of
        Inl e \<Rightarrow> Inl e
      | Inr out \<Rightarrow>
          (case decode h enc (stderr_bytes c) of
             Inl e \<Rightarrow> Inl e
           | Inr err \<Rightarrow>
               Inr \<lparr>returncode = exit_status c, stdout = translate_newlines out,
                    stderr = translate_newlines err\<rparr>))"

text \<open>
  \<open>subprocess.run(argv, capture_output=True, text=True, encoding=enc, timeout=t)\<close>:
  the call waits until the child has exited and the pipes of its streams are at end of
  file. When that takes more than \<open>t\<close> time units the child is killed and
  \<open>TimeoutExpired\<close> is raised; otherwise the streams are decoded, which raises when
  their bytes are not text of the encoding. Without a timeout the call waits for the
  child.
\<close>

definition subprocess_run ::
  "string list \<Rightarrow> encoding \<Rightarrow> int option \<Rightarrow> completed_process py" where
  "subprocess_run argv enc tmo h =
     (let h0 = h\<lparr>trace := trace h @ [SubprocessRun argv tmo]\<rparr> in
      case programs h argv (fs h) of
        Inl e \<Rightarrow> (Inl e, h0)
      | Inr c \<Rightarrow>
          (let finished = max (runtime c) (pipes_close c) in
           case tmo of
             None \<Rightarrow> (read_streams h enc c, h0\<lparr>fs := effect c finished (fs h)\<rparr>)
           | Some t \<Rightarrow>
               if t < int finished
               then (Inl (TimeoutExpired argv t), h0\<lparr>fs := effect c (nat t) (fs h)\<rparr>)
               else (read_streams h enc c, h0\<lparr>fs := effect c finished (fs h)\<rparr>)))"

text \<open>
  \<open>Path(path).exists()\<close>, taken as a test that always answers: the case in which
  \<open>stat\<close> fails for another reason than a missing path, and \<open>exists\<close> raises, is
  left out.
\<close>

definition path_exists :: "host \<Rightarrow> string \<Rightarrow> bool" where
  "path_exists h path = (fs h path \<noteq> None)"

section \<open>Configuration\<close>

record viewport_size =
  width :: int
  height :: int

record config =
  app_title :: string
  app_subtitle :: string
  timeout :: int
  viewport :: viewport_size
  analysis_timeout :: int
  installation_timeout :: int

definition CONFIG :: config where
  "CONFIG =
     \<lparr>app_title = utf8 0x1F393 @ '' Academic Browser Automation System'',
      app_subtitle = ''Demonstrating Modern Web Automation Principles'',
      timeout = 300,
      viewport = \<lparr>width = 1280, height = 720\<rparr>,
      analysis_timeout = 45000,
      installation_timeout = 600\<rparr>"

section \<open>SystemManager\<close>

text \<open>
  \<open>find_executables\<close> runs the same block for \<open>node\<close> and for \<open>npm\<close>: the variable
  starts as \<open>None\<close>, the lookup command of the platform is run, and on exit status 0
  the variable becomes the first line of its stripped output; the bare \<open>except: pass\<close>
  leaves it \<open>None\<close>.
\<close>

definition find_executable :: "string \<Rightarrow> string option py" where
  "find_executable name h =
     try_except
       (py_bind
          (subprocess_run [if os_name h = ''nt'' then ''where'' else ''which'', name] Locale None)
          (\<lambda>result.
             if returncode result = 0
             then py_bind (index0 (split_on (CHR 0x0A) (strip (stdout result))))
                    (\<lambda>first. py_return (Some first))
             else py_return None))
       [(any_exception, \<lambda>e. py_return None)] h"

definition find_executables :: "(string option \<times> string option) py" where
  "find_executables =
     py_bind (find_executable ''node'') (\<lambda>node_path.
     py_bind (find_executable ''npm'') (\<lambda>npm_path.
     py_return (node_path, npm_path)))"

definition validate_environment :: "(bool \<times> string option \<times> string option) py" where
  "validate_environment =
     py_bind find_executables (\<lambda>(node_path, npm_path).
       case node_path of
         None \<Rightarrow> py_return (False, None, None)
       | Some p \<Rightarrow>
           if p = [] then py_return (False, None, None)
           else try_except
                  (py_bind (subprocess_run [p, ''--version''] Locale (Some 10)) (\<lambda>result.
                   py_return (returncode result = 0, node_path, npm_path)))
                  [(any_exception, \<lambda>e. py_return (False, None, None))])"

section \<open>PuppeteerManager\<close>

subsection \<open>Installation\<close>

text \<open>
  What \<open>json.dump(package_config, f, indent=2)\<close> writes for the \<open>package_config\<close> of
  \<open>ensure_installation\<close> (\<open>main.py\<close>, lines 88 to 103).
\<close>

definition package_json :: string where
  \<open>package_json = text_lines
     [''{'',
      ''  "name": "academic-browser-automation",'',
      ''  "version": "1.0.0",'',
      ''  "description": "Academic demonstration of browser automation with detailed analysis",'',
      ''  "main": "index.js",'',
      ''  "dependencies": {'',
      ''    "puppeteer": "^21.0.0"'',
      ''  },'',
      ''  "devDependencies": {},'',
      ''  "scripts": {'',
      ''    "test": "node test.js"'',
      ''  },'',
      ''  "keywords": ['',
      ''    "automation",'',
      ''    "academic",'',
      ''    "browser",'',
      ''    "research"'',
      ''  ],'',
      ''  "author": "Academic Project",'',
      ''  "license": "MIT"'',
      ''}'']\<close>

definition ensure_installation :: "string \<Rightarrow> pydict py" where
  "ensure_installation npm_path h =
     (if path_exists h ''node_modules''
      then py_return
             [(''success'', PBool True), (''message'', PStr ''Dependencies already installed'')] h
      else try_except
             (py_bind (open_write ''package.json'' package_json) (\<lambda>u.
              py_bind (subprocess_run [npm_path, ''install''] Locale
                         (Some (installation_timeout CONFIG)))
                (\<lambda>result.
              py_return
                [(''success'', PBool (returncode result = 0)),
                 (''message'',
                    PStr (if returncode result = 0 then ''Installation successful''
                          else stderr result)),
                 (''details'',
                    PDict [(''stdout'', PStr (stdout result)),
                           (''stderr'', PStr (stderr result)),
                           (''return_code'', PInt (returncode result))])])))
             [(is_Exception, \<lambda>e.
                 py_return
                   [(''success'', PBool False),
                    (''message'', PStr (str_exn e)),
                    (''details'', PDict [(''error'', PStr (str_exn e))])])] h)"

subsection \<open>The script templates\<close>

text \<open>
  The string literals of \<open>create_script\<close>, as Python reads them: in the f-strings
  \<open>{{\<close> and \<open>}}\<close> stand for one brace and \<open>\\\<close> for one backslash, and each
  literal is cut where the f-string interpolates a value.
\<close>

text \<open>\<open>main.py\<close>, lines 129 to 144.\<close>

definition base_config :: string where
  \<open>base_config = text_lines
     ['''',
      ''        const puppeteer = require('puppeteer');'',
      ''        const delay = ms => new Promise(resolve => setTimeout(resolve, ms));'',
      ''        '',
      ''        (async () => {'',
      ''            try {'',
      ''                console.log('' @ [CHR 0x27] @ utf8 0x1F680 @ '' Initializing browser automation...');'',
      ''                '',
      ''                const browser = await puppeteer.launch({'',
      ''                    headless: false,'',
      ''                    defaultViewport: { width: 1280, height: 720 },'',
      ''                    args: ['--no-sandbox', '--disable-setuid-sandbox']'',
      ''                });'',
      ''                '',
      ''                const page = await browser.newPage();'',
      ''        '']\<close>

text \<open>\<open>main.py\<close>, lines 147 to 150.\<close>

definition demo_head :: string where
  \<open>demo_head = text_lines
     ['''',
      ''                console.log('' @ [CHR 0x27] @ utf8 0x1F4D6 @ '' Academic Demo: Comprehensive Research Portal Analysis...');'',
      ''                await page.goto('https://scholar.google.com', { '',
      ''                    waitUntil: 'networkidle2', timeout: '']\<close>

text \<open>\<open>main.py\<close>, lines 150 to 174.\<close>

definition demo_rest_1 :: string where
  \<open>demo_rest_1 = text_lines
     ['''',
      ''                });'',
      ''                '',
      ''                // Comprehensive page analysis'',
      ''                console.log('' @ [CHR 0x27] @ utf8 0x1F50D @ '' Performing detailed page analysis...');'',
      ''                const analysis = await page.evaluate(() => {'',
      ''                    const getTextContent = (selector) => {'',
      ''                        const el = document.querySelector(selector);'',
      ''                        return el ? el.textContent.trim() : 'Not found';'',
      ''                    };'',
      ''                    '',
      ''                    const countElements = (selector) => document.querySelectorAll(selector).length;'',
      ''                    '',
      ''                    return {'',
      ''                        // Basic metadata'',
      ''                        title: document.title,'',
      ''                        url: window.location.href,'',
      ''                        charset: document.characterSet,'',
      ''                        lastModified: document.lastModified,'',
      ''                        '',
      ''                        // Content analysis'',
      ''                        totalLinks: countElements('a'),'',
      ''                        externalLinks: Array.from(document.querySelectorAll('a')).filter(a => '',
      ''                            a.href && !a.href.includes(window.location.hostname)).length,'',
      ''                        images: countElements('img'),'']\<close>

text \<open>\<open>main.py\<close>, lines 175 to 199.\<close>

definition demo_rest_2 :: string where
  \<open>demo_rest_2 = text_lines
     [''                        forms: countElements('form'),'',
      ''                        buttons: countElements('button'),'',
      ''                        inputs: countElements('input'),'',
      ''                        '',
      ''                        // Structure analysis'',
      ''                        headings: {'',
      ''                            h1: countElements('h1'),'',
      ''                            h2: countElements('h2'),'',
      ''                            h3: countElements('h3'),'',
      ''                            h4: countElements('h4'),'',
      ''                            h5: countElements('h5'),'',
      ''                            h6: countElements('h6')'',
      ''                        },'',
      ''                        '',
      ''                        // Content metrics'',
      ''                        textLength: document.body.innerText.length,'',
      ''                        wordCount: document.body.innerText.split(/'' @ [CHR 0x5C] @ ''s+/).length,'',
      ''                        paragraphs: countElements('p'),'',
      ''                        lists: countElements('ul, ol'),'',
      ''                        tables: countElements('table'),'',
      ''                        '',
      ''                        // Technical analysis'',
      ''                        hasServiceWorker: 'serviceWorker' in navigator,'',
      ''                        hasLocalStorage: typeof(Storage) !== "undefined",'',
      ''                        viewportWidth: window.innerWidth,'']\<close>

text \<open>\<open>main.py\<close>, lines 200 to 224.\<close>

definition demo_rest_3 :: string where
  \<open>demo_rest_3 = text_lines
     [''                        viewportHeight: window.innerHeight,'',
      ''                        '',
      ''                        // Performance hints'',
      ''                        loadTime: performance.timing.loadEventEnd - performance.timing.navigationStart,'',
      ''                        domElements: document.getElementsByTagName('*').length'',
      ''                    };'',
      ''                });'',
      ''                '',
      ''                // Display comprehensive analysis'',
      ''                console.log('' @ [CHR 0x27] @ utf8 0x1F4CA @ '' COMPREHENSIVE WEBSITE ANALYSIS REPORT');'',
      ''                console.log('=' .repeat(50));'',
      ''                console.log(`'' @ utf8 0x1F4DD @ '' Title: ${analysis.title}`);'',
      ''                console.log(`'' @ utf8 0x1F310 @ '' URL: ${analysis.url}`);'',
      ''                console.log(`'' @ utf8 0x1F4C5 @ '' Last Modified: ${analysis.lastModified}`);'',
      ''                console.log(`'' @ utf8 0x26A1 @ '' Load Time: ${analysis.loadTime}ms`);'',
      ''                console.log('' @ [CHR 0x27] @ ''');'',
      ''                '',
      ''                console.log('' @ [CHR 0x27] @ utf8 0x1F517 @ '' LINK ANALYSIS:');'',
      ''                console.log(`   Total Links: ${analysis.totalLinks}`);'',
      ''                console.log(`   External Links: ${analysis.externalLinks}`);'',
      ''                console.log(`   Internal Links: ${analysis.totalLinks - analysis.externalLinks}`);'',
      ''                console.log('' @ [CHR 0x27] @ ''');'',
      ''                '',
      ''                console.log('' @ [CHR 0x27] @ utf8 0x1F3D7 @ utf8 0xFE0F @ '' STRUCTURE ANALYSIS:');'',
      ''                console.log(`   H1 Headings: ${analysis.headings.h1}`);'']\<close>

text \<open>\<open>main.py\<close>, lines 225 to 249.\<close>

definition demo_rest_4 :: string where
  \<open>demo_rest_4 = text_lines
     [''                console.log(`   H2 Headings: ${analysis.headings.h2}`);'',
      ''                console.log(`   H3 Headings: ${analysis.headings.h3}`);'',
      ''                console.log(`   Total DOM Elements: ${analysis.domElements}`);'',
      ''                console.log(`   Paragraphs: ${analysis.paragraphs}`);'',
      ''                console.log(`   Lists: ${analysis.lists}`);'',
      ''                console.log(`   Tables: ${analysis.tables}`);'',
      ''                console.log('' @ [CHR 0x27] @ ''');'',
      ''                '',
      ''                console.log('' @ [CHR 0x27] @ utf8 0x1F4DD @ '' CONTENT METRICS:');'',
      ''                console.log(`   Text Length: ${analysis.textLength.toLocaleString()} characters`);'',
      ''                console.log(`   Word Count: ${analysis.wordCount.toLocaleString()} words`);'',
      ''                console.log(`   Images: ${analysis.images}`);'',
      ''                console.log('' @ [CHR 0x27] @ ''');'',
      ''                '',
      ''                console.log('' @ [CHR 0x27] @ utf8 0x2699 @ utf8 0xFE0F @ '' INTERACTIVE ELEMENTS:');'',
      ''                console.log(`   Forms: ${analysis.forms}`);'',
      ''                console.log(`   Buttons: ${analysis.buttons}`);'',
      ''                console.log(`   Input Fields: ${analysis.inputs}`);'',
      ''                console.log('' @ [CHR 0x27] @ ''');'',
      ''                '',
      ''                console.log('' @ [CHR 0x27] @ utf8 0x1F5A5 @ utf8 0xFE0F @ '' TECHNICAL DETAILS:');'',
      ''                console.log(`   Viewport: ${analysis.viewportWidth}x${analysis.viewportHeight}`);'',
      ''                console.log(`   Character Set: ${analysis.charset}`);'',
      ''                console.log(`   Service Worker: ${analysis.hasServiceWorker ? 'Available' : 'Not Available'}`);'',
      ''                console.log(`   Local Storage: ${analysis.hasLocalStorage ? 'Available' : 'Not Available'}`);'']\<close>

text \<open>\<open>main.py\<close>, lines 250 to 274.\<close>

definition demo_rest_5 :: string where
  \<open>demo_rest_5 = text_lines
     [''                console.log('' @ [CHR 0x27] @ ''');'',
      ''                '',
      ''                // Take screenshot with timestamp'',
      ''                const timestamp = new Date().toISOString().replace(/[:.]/g, '-');'',
      ''                const screenshotPath = `academic_demo_${timestamp}.png`;'',
      ''                await page.screenshot({ '',
      ''                    path: screenshotPath, '',
      ''                    fullPage: true,'',
      ''                    type: 'png'' @ [CHR 0x27],
      ''                });'',
      ''                console.log(`'' @ utf8 0x1F4F8 @ '' Full-page screenshot saved: ${screenshotPath}`);'',
      ''                '',
      ''                // Generate summary report'',
      ''                const efficiency = analysis.textLength / analysis.domElements;'',
      ''                const linkDensity = (analysis.totalLinks / analysis.wordCount * 100).toFixed(2);'',
      ''                '',
      ''                console.log('' @ [CHR 0x27] @ utf8 0x1F4C8 @ '' EFFICIENCY METRICS:');'',
      ''                console.log(`   Content Efficiency: ${efficiency.toFixed(2)} chars/element`);'',
      ''                console.log(`   Link Density: ${linkDensity}% (links per 100 words)`);'',
      ''                console.log(`   Heading Structure: ${analysis.headings.h1 > 0 ? 'Good' : 'Missing H1'}`);'',
      ''                '',
      ''                await delay(5000);'',
      ''                await browser.close();'',
      ''                console.log('' @ [CHR 0x27] @ utf8 0x2705 @ '' Comprehensive academic demo completed successfully');'',
      ''            '']\<close>

text \<open>\<open>main.py\<close>, lines 278 to 279.\<close>

definition research_head :: string where
  \<open>research_head = text_lines
     ['''',
      ''                const url = '' @ [CHR 0x27]]\<close>

text \<open>\<open>main.py\<close>, lines 279 to 286.\<close>

definition research_goto :: string where
  \<open>research_goto = text_lines
     [''';'',
      ''                console.log(`'' @ utf8 0x1F52C @ '' ADVANCED RESEARCH MODE: Deep Analysis of ${url}`);'',
      ''                console.log('=' .repeat(60));'',
      ''                '',
      ''                // Navigate with extended timeout'',
      ''                await page.goto(url, { '',
      ''                    waitUntil: 'networkidle2', '',
      ''                    timeout: '']\<close>

text \<open>\<open>main.py\<close>, lines 286 to 310.\<close>

definition research_rest_1 :: string where
  \<open>research_rest_1 = text_lines
     ['''',
      ''                });'',
      ''                '',
      ''                console.log('' @ [CHR 0x27] @ utf8 0x23F1 @ utf8 0xFE0F @ '' Page loaded, beginning comprehensive analysis...');'',
      ''                '',
      ''                // Advanced metrics collection'',
      ''                const detailedMetrics = await page.evaluate(() => {'',
      ''                    // Helper functions'',
      ''                    const getTextContent = (selector) => {'',
      ''                        const el = document.querySelector(selector);'',
      ''                        return el ? el.textContent.trim() : null;'',
      ''                    };'',
      ''                    '',
      ''                    const countElements = (selector) => document.querySelectorAll(selector).length;'',
      ''                    '',
      ''                    const getMetaTags = () => {'',
      ''                        const metas = {};'',
      ''                        document.querySelectorAll('meta').forEach(meta => {'',
      ''                            const name = meta.getAttribute('name') || meta.getAttribute('property');'',
      ''                            if (name) metas[name] = meta.getAttribute('content');'',
      ''                        });'',
      ''                        return metas;'',
      ''                    };'',
      ''                    '',
      ''                    const analyzeColors = () => {'']\<close>

text \<open>\<open>main.py\<close>, lines 311 to 335.\<close>

definition research_rest_2 :: string where
  \<open>research_rest_2 = text_lines
     [''                        const styles = window.getComputedStyle(document.body);'',
      ''                        return {'',
      ''                            backgroundColor: styles.backgroundColor,'',
      ''                            color: styles.color,'',
      ''                            fontFamily: styles.fontFamily,'',
      ''                            fontSize: styles.fontSize'',
      ''                        };'',
      ''                    };'',
      ''                    '',
      ''                    const checkAccessibility = () => {'',
      ''                        return {'',
      ''                            hasAltTexts: Array.from(document.querySelectorAll('img')).every(img => img.alt),'',
      ''                            hasAriaLabels: countElements('[aria-label]'),'',
      ''                            hasHeadingStructure: countElements('h1') > 0,'',
      ''                            hasLangAttribute: document.documentElement.hasAttribute('lang'),'',
      ''                            focusableElements: countElements('a, button, input, select, textarea, [tabindex]')'',
      ''                        };'',
      ''                    };'',
      ''                    '',
      ''                    return {'',
      ''                        // Basic Information'',
      ''                        basic: {'',
      ''                            title: document.title,'',
      ''                            url: window.location.href,'',
      ''                            domain: window.location.hostname,'']\<close>

text \<open>\<open>main.py\<close>, lines 336 to 360.\<close>

definition research_rest_3 :: string where
  \<open>research_rest_3 = text_lines
     [''                            protocol: window.location.protocol,'',
      ''                            charset: document.characterSet,'',
      ''                            language: document.documentElement.lang || 'Not specified','',
      ''                            lastModified: document.lastModified'',
      ''                        },'',
      ''                        '',
      ''                        // Content Analysis'',
      ''                        content: {'',
      ''                            textLength: document.body.innerText.length,'',
      ''                            wordCount: document.body.innerText.split(/'' @ [CHR 0x5C] @ ''s+/).filter(word => word.length > 0).length,'',
      ''                            readingTime: Math.ceil(document.body.innerText.split(/'' @ [CHR 0x5C] @ ''s+/).length / 200), // avg 200 wpm'',
      ''                            totalLinks: countElements('a'),'',
      ''                            externalLinks: Array.from(document.querySelectorAll('a')).filter(a => '',
      ''                                a.href && !a.href.includes(window.location.hostname)).length,'',
      ''                            images: countElements('img'),'',
      ''                            videos: countElements('video'),'',
      ''                            audios: countElements('audio')'',
      ''                        },'',
      ''                        '',
      ''                        // Structure Analysis'',
      ''                        structure: {'',
      ''                            headings: {'',
      ''                                h1: countElements('h1'),'',
      ''                                h2: countElements('h2'),'',
      ''                                h3: countElements('h3'),'']\<close>

text \<open>\<open>main.py\<close>, lines 361 to 385.\<close>

definition research_rest_4 :: string where
  \<open>research_rest_4 = text_lines
     [''                                h4: countElements('h4'),'',
      ''                                h5: countElements('h5'),'',
      ''                                h6: countElements('h6')'',
      ''                            },'',
      ''                            lists: countElements('ul, ol'),'',
      ''                            tables: countElements('table'),'',
      ''                            forms: countElements('form'),'',
      ''                            buttons: countElements('button'),'',
      ''                            inputs: countElements('input'),'',
      ''                            paragraphs: countElements('p'),'',
      ''                            divs: countElements('div'),'',
      ''                            spans: countElements('span')'',
      ''                        },'',
      ''                        '',
      ''                        // Technical Analysis'',
      ''                        technical: {'',
      ''                            totalElements: document.querySelectorAll('*').length,'',
      ''                            scripts: countElements('script'),'',
      ''                            stylesheets: countElements('link[rel="stylesheet"]'),'',
      ''                            hasServiceWorker: 'serviceWorker' in navigator,'',
      ''                            hasWebGL: !!window.WebGLRenderingContext,'',
      ''                            hasGeolocation: 'geolocation' in navigator,'',
      ''                            hasLocalStorage: typeof(Storage) !== "undefined",'',
      ''                            viewportWidth: window.innerWidth,'',
      ''                            viewportHeight: window.innerHeight,'']\<close>

text \<open>\<open>main.py\<close>, lines 386 to 410.\<close>

definition research_rest_5 :: string where
  \<open>research_rest_5 = text_lines
     [''                            screenWidth: window.screen.width,'',
      ''                            screenHeight: window.screen.height'',
      ''                        },'',
      ''                        '',
      ''                        // Performance Metrics'',
      ''                        performance: {'',
      ''                            loadTime: performance.timing.loadEventEnd - performance.timing.navigationStart,'',
      ''                            domContentLoaded: performance.timing.domContentLoadedEventEnd - performance.timing.navigationStart,'',
      ''                            firstPaint: performance.getEntriesByType('paint').find(p => p.name === 'first-paint')?.startTime || 'N/A','',
      ''                            firstContentfulPaint: performance.getEntriesByType('paint').find(p => p.name === 'first-contentful-paint')?.startTime || 'N/A'' @ [CHR 0x27],
      ''                        },'',
      ''                        '',
      ''                        // SEO Analysis'',
      ''                        seo: {'',
      ''                            metaTags: getMetaTags(),'',
      ''                            hasTitle: !!document.title,'',
      ''                            titleLength: document.title.length,'',
      ''                            hasMetaDescription: !!document.querySelector('meta[name="description"]'),'',
      ''                            hasCanonical: !!document.querySelector('link[rel="canonical"]'),'',
      ''                            hasRobots: !!document.querySelector('meta[name="robots"]'),'',
      ''                            structuredData: countElements('script[type="application/ld+json"]')'',
      ''                        },'',
      ''                        '',
      ''                        // Design Analysis'',
      ''                        design: analyzeColors(),'']\<close>

text \<open>\<open>main.py\<close>, lines 411 to 435.\<close>

definition research_rest_6 :: string where
  \<open>research_rest_6 = text_lines
     [''                        '',
      ''                        // Accessibility Check'',
      ''                        accessibility: checkAccessibility()'',
      ''                    };'',
      ''                });'',
      ''                '',
      ''                // Generate comprehensive report'',
      ''                console.log('' @ [CHR 0x27] @ utf8 0x1F4CA @ '' DETAILED RESEARCH ANALYSIS REPORT');'',
      ''                console.log('=' .repeat(60));'',
      ''                '',
      ''                // Basic Information'',
      ''                console.log('' @ [CHR 0x27] @ utf8 0x1F4CB @ '' BASIC INFORMATION:');'',
      ''                console.log(`   Title: ${detailedMetrics.basic.title}`);'',
      ''                console.log(`   Domain: ${detailedMetrics.basic.domain}`);'',
      ''                console.log(`   Protocol: ${detailedMetrics.basic.protocol}`);'',
      ''                console.log(`   Language: ${detailedMetrics.basic.language}`);'',
      ''                console.log(`   Character Set: ${detailedMetrics.basic.charset}`);'',
      ''                console.log(`   Last Modified: ${detailedMetrics.basic.lastModified}`);'',
      ''                console.log('' @ [CHR 0x27] @ ''');'',
      ''                '',
      ''                // Content Metrics'',
      ''                console.log('' @ [CHR 0x27] @ utf8 0x1F4DD @ '' CONTENT ANALYSIS:');'',
      ''                console.log(`   Word Count: ${detailedMetrics.content.wordCount.toLocaleString()} words`);'',
      ''                console.log(`   Character Count: ${detailedMetrics.content.textLength.toLocaleString()} characters`);'',
      ''                console.log(`   Estimated Reading Time: ${detailedMetrics.content.readingTime} minutes`);'']\<close>

text \<open>\<open>main.py\<close>, lines 436 to 460.\<close>

definition research_rest_7 :: string where
  \<open>research_rest_7 = text_lines
     [''                console.log(`   Total Links: ${detailedMetrics.content.totalLinks}`);'',
      ''                console.log(`   External Links: ${detailedMetrics.content.externalLinks}`);'',
      ''                console.log(`   Internal Links: ${detailedMetrics.content.totalLinks - detailedMetrics.content.externalLinks}`);'',
      ''                console.log(`   Images: ${detailedMetrics.content.images}`);'',
      ''                console.log(`   Videos: ${detailedMetrics.content.videos}`);'',
      ''                console.log(`   Audio Elements: ${detailedMetrics.content.audios}`);'',
      ''                console.log('' @ [CHR 0x27] @ ''');'',
      ''                '',
      ''                // Structure Analysis'',
      ''                console.log('' @ [CHR 0x27] @ utf8 0x1F3D7 @ utf8 0xFE0F @ '' STRUCTURE ANALYSIS:');'',
      ''                console.log(`   H1 Tags: ${detailedMetrics.structure.headings.h1}`);'',
      ''                console.log(`   H2 Tags: ${detailedMetrics.structure.headings.h2}`);'',
      ''                console.log(`   H3 Tags: ${detailedMetrics.structure.headings.h3}`);'',
      ''                console.log(`   Total Headings: ${Object.values(detailedMetrics.structure.headings).reduce((a,b) => a+b, 0)}`);'',
      ''                console.log(`   Paragraphs: ${detailedMetrics.structure.paragraphs}`);'',
      ''                console.log(`   Lists: ${detailedMetrics.structure.lists}`);'',
      ''                console.log(`   Tables: ${detailedMetrics.structure.tables}`);'',
      ''                console.log(`   Forms: ${detailedMetrics.structure.forms}`);'',
      ''                console.log(`   Interactive Elements: ${detailedMetrics.structure.buttons + detailedMetrics.structure.inputs}`);'',
      ''                console.log('' @ [CHR 0x27] @ ''');'',
      ''                '',
      ''                // Technical Analysis'',
      ''                console.log('' @ [CHR 0x27] @ utf8 0x2699 @ utf8 0xFE0F @ '' TECHNICAL ANALYSIS:');'',
      ''                console.log(`   Total DOM Elements: ${detailedMetrics.technical.totalElements.toLocaleString()}`);'',
      ''                console.log(`   JavaScript Files: ${detailedMetrics.technical.scripts}`);'']\<close>

text \<open>\<open>main.py\<close>, lines 461 to 485.\<close>

definition research_rest_8 :: string where
  \<open>research_rest_8 = text_lines
     [''                console.log(`   CSS Stylesheets: ${detailedMetrics.technical.stylesheets}`);'',
      ''                console.log(`   Viewport: ${detailedMetrics.technical.viewportWidth}x${detailedMetrics.technical.viewportHeight}`);'',
      ''                console.log(`   Screen Resolution: ${detailedMetrics.technical.screenWidth}x${detailedMetrics.technical.screenHeight}`);'',
      ''                console.log(`   Modern Features:`);'',
      ''                console.log(`     - Service Worker: ${detailedMetrics.technical.hasServiceWorker ? '' @ [CHR 0x27] @ utf8 0x2705 @ ''' : '' @ [CHR 0x27] @ utf8 0x274C @ '''}`);'',
      ''                console.log(`     - WebGL: ${detailedMetrics.technical.hasWebGL ? '' @ [CHR 0x27] @ utf8 0x2705 @ ''' : '' @ [CHR 0x27] @ utf8 0x274C @ '''}`);'',
      ''                console.log(`     - Geolocation: ${detailedMetrics.technical.hasGeolocation ? '' @ [CHR 0x27] @ utf8 0x2705 @ ''' : '' @ [CHR 0x27] @ utf8 0x274C @ '''}`);'',
      ''                console.log(`     - Local Storage: ${detailedMetrics.technical.hasLocalStorage ? '' @ [CHR 0x27] @ utf8 0x2705 @ ''' : '' @ [CHR 0x27] @ utf8 0x274C @ '''}`);'',
      ''                console.log('' @ [CHR 0x27] @ ''');'',
      ''                '',
      ''                // Performance Metrics'',
      ''                console.log('' @ [CHR 0x27] @ utf8 0x26A1 @ '' PERFORMANCE METRICS:');'',
      ''                console.log(`   Total Load Time: ${detailedMetrics.performance.loadTime}ms`);'',
      ''                console.log(`   DOM Content Loaded: ${detailedMetrics.performance.domContentLoaded}ms`);'',
      ''                console.log(`   First Paint: ${detailedMetrics.performance.firstPaint}ms`);'',
      ''                console.log(`   First Contentful Paint: ${detailedMetrics.performance.firstContentfulPaint}ms`);'',
      ''                console.log('' @ [CHR 0x27] @ ''');'',
      ''                '',
      ''                // SEO Analysis'',
      ''                console.log('' @ [CHR 0x27] @ utf8 0x1F50D @ '' SEO ANALYSIS:');'',
      ''                console.log(`   Page Title: ${detailedMetrics.seo.hasTitle ? '' @ [CHR 0x27] @ utf8 0x2705 @ ''' : '' @ [CHR 0x27] @ utf8 0x274C @ '''} (${detailedMetrics.seo.titleLength} chars)`);'',
      ''                console.log(`   Meta Description: ${detailedMetrics.seo.hasMetaDescription ? '' @ [CHR 0x27] @ utf8 0x2705 @ ''' : '' @ [CHR 0x27] @ utf8 0x274C @ '''}`);'',
      ''                console.log(`   Canonical URL: ${detailedMetrics.seo.hasCanonical ? '' @ [CHR 0x27] @ utf8 0x2705 @ ''' : '' @ [CHR 0x27] @ utf8 0x274C @ '''}`);'',
      ''                console.log(`   Robots Meta: ${detailedMetrics.seo.hasRobots ? '' @ [CHR 0x27] @ utf8 0x2705 @ ''' : '' @ [CHR 0x27] @ utf8 0x274C @ '''}`);'',
      ''                console.log(`   Structured Data: ${detailedMetrics.seo.structuredData} schemas found`);'']\<close>

text \<open>\<open>main.py\<close>, lines 486 to 515.\<close>

definition research_rest_9 :: string where
  \<open>research_rest_9 = text_lines
     [''                console.log('' @ [CHR 0x27] @ ''');'',
      ''                '',
      ''                // Accessibility Analysis'',
      ''                console.log('' @ [CHR 0x27] @ utf8 0x267F @ '' ACCESSIBILITY ANALYSIS:');'',
      ''                console.log(`   Alt Text Coverage: ${detailedMetrics.accessibility.hasAltTexts ? '' @ [CHR 0x27] @ utf8 0x2705 @ '' Complete' : '' @ [CHR 0x27] @ utf8 0x274C @ '' Incomplete'}`);'',
      ''                console.log(`   ARIA Labels: ${detailedMetrics.accessibility.hasAriaLabels} elements`);'',
      ''                console.log(`   Heading Structure: ${detailedMetrics.accessibility.hasHeadingStructure ? '' @ [CHR 0x27] @ utf8 0x2705 @ '' Present' : '' @ [CHR 0x27] @ utf8 0x274C @ '' Missing'}`);'',
      ''                console.log(`   Language Attribute: ${detailedMetrics.accessibility.hasLangAttribute ? '' @ [CHR 0x27] @ utf8 0x2705 @ '' Present' : '' @ [CHR 0x27] @ utf8 0x274C @ '' Missing'}`);'',
      ''                console.log(`   Focusable Elements: ${detailedMetrics.accessibility.focusableElements}`);'',
      ''                console.log('' @ [CHR 0x27] @ ''');'',
      ''                '',
      ''                // Calculate quality scores'',
      ''                const contentQuality = Math.min(100, (detailedMetrics.content.wordCount / 10));'',
      ''                const structureQuality = Math.min(100, (Object.values(detailedMetrics.structure.headings).reduce((a,b) => a+b, 0) * 10));'',
      ''                const seoQuality = ['',
      ''                    detailedMetrics.seo.hasTitle,'',
      ''                    detailedMetrics.seo.hasMetaDescription,'',
      ''                    detailedMetrics.seo.titleLength > 10 && detailedMetrics.seo.titleLength < 60'',
      ''                ].filter(Boolean).length * 33.33;'',
      ''                '',
      ''                console.log('' @ [CHR 0x27] @ utf8 0x1F4C8 @ '' QUALITY SCORES:');'',
      ''                console.log(`   Content Quality: ${contentQuality.toFixed(1)}%`);'',
      ''                console.log(`   Structure Quality: ${structureQuality.toFixed(1)}%`);'',
      ''                console.log(`   SEO Quality: ${seoQuality.toFixed(1)}%`);'',
      ''                console.log(`   Performance Score: ${detailedMetrics.performance.loadTime < 3000 ? '' @ [CHR 0x27] @ utf8 0x2705 @ '' Good' : '' @ [CHR 0x27] @ utf8 0x26A0 @ utf8 0xFE0F @ '' Needs Improvement'}`);'',
      ''                '',
      ''                await delay(3000);'',
      ''                await browser.close();'',
      ''                console.log('' @ [CHR 0x27] @ utf8 0x1F3AF @ '' Advanced research analysis completed successfully');'',
      ''            '']\<close>

text \<open>\<open>main.py\<close>, lines 517 to 522.\<close>

definition default_body :: string where
  \<open>default_body = text_lines
     ['''',
      ''                console.log('' @ [CHR 0x27] @ utf8 0x1F4D6 @ '' Default demo mode');'',
      ''                await page.goto('https://example.com');'',
      ''                await delay(2000);'',
      ''                await browser.close();'',
      ''            '']\<close>

text \<open>\<open>main.py\<close>, line 524: the handler that closes every script.\<close>

definition script_tail :: string where
  \<open>script_tail = text_lines
     ['''',
      ''} catch(error) { console.error('' @ [CHR 0x27] @ utf8 0x274C @ '' Error:', error.message); process.exit(1); } })();'']\<close>

definition demo_rest :: string where
  "demo_rest = text_lines [demo_rest_1, demo_rest_2, demo_rest_3, demo_rest_4, demo_rest_5]"

definition research_rest :: string where
  "research_rest = text_lines
     [research_rest_1, research_rest_2, research_rest_3, research_rest_4, research_rest_5,
      research_rest_6, research_rest_7, research_rest_8, research_rest_9]"

subsection \<open>Composing and running a script\<close>

text \<open>
  \<open>create_script(action, **kwargs)\<close>; the keyword arguments are a map from names to
  strings, and \<open>kwargs.get("url", "https://example.com")\<close> reads one of them. The
  function calls nothing of the host and, besides its arguments, reads only \<open>CONFIG\<close>,
  which \<open>main.py\<close> never assigns to: it is embedded as a function of its arguments.
\<close>

definition create_script :: "string \<Rightarrow> (string \<rightharpoonup> string) \<Rightarrow> string" where
  "create_script action kwargs =
     (let script_body =
        (if action = ''demo'' then
           demo_head @ str_int (analysis_timeout CONFIG) @ demo_rest
         else if action = ''research'' then
           (let url = (case kwargs ''url'' of None \<Rightarrow> ''https://example.com'' | Some u \<Rightarrow> u)
            in research_head @ url @ research_goto @ str_int (analysis_timeout CONFIG)
                 @ research_rest)
         else default_body)
      in base_config @ script_body @ script_tail)"

definition script_file :: string where
  "script_file = ''temp_automation.js''"

text \<open>
  The three dictionaries that \<open>execute_script\<close> returns: from the \<open>try\<close> block when
  the child has exited (\<open>main.py\<close>, lines 540 to 551), from the handler of
  \<open>subprocess.TimeoutExpired\<close> (lines 554 to 559) and from the handler of \<open>Exception\<close>
  (lines 561 to 565).
\<close>

definition completed_result :: "completed_process \<Rightarrow> pydict" where
  "completed_result result =
     [(''success'', PBool (returncode result = 0)),
      (''output'', PStr (stdout result)),
      (''error'', if stderr result \<noteq> [] then PStr (stderr result) else PNone),
      (''return_code'', PInt (returncode result)),
      (''execution_time'', PStr ''Completed within timeout''),
      (''details'',
         PDict
           [(''stdout_lines'',
               PInt (if stdout result \<noteq> [] then int (length (splitlines (stdout result))) else 0)),
            (''stderr_lines'',
               PInt (if stderr result \<noteq> [] then int (length (splitlines (stderr result))) else 0)),
            (''total_output_chars'',
               PInt (int (py_len (stdout result))
                     + int (py_len (if stderr result \<noteq> [] then stderr result else []))))])]"

definition timeout_result :: pydict where
  "timeout_result =
     [(''success'', PBool False),
      (''error'',
         PStr (''Execution timeout after '' @ str_int (timeout CONFIG)
               @ '' seconds - process was terminated for safety'')),
      (''execution_time'', PStr (''Exceeded '' @ str_int (timeout CONFIG) @ ''s timeout'')),
      (''details'',
         PDict
           [(''timeout_reason'',
               PStr (''Process took longer than expected - ''
                     @ ''may indicate network issues or complex page loading''))])]"

definition error_result :: "exn \<Rightarrow> pydict" where
  "error_result e =
     [(''success'', PBool False),
      (''error'', PStr (''Execution error: '' @ str_exn e)),
      (''details'',
         PDict
           [(''exception_type'', PStr (type_name e)),
            (''exception_message'', PStr (str_exn e))])]"

definition execute_script :: "string \<Rightarrow> string \<Rightarrow> pydict py" where
  "execute_script node_path script =
     try_finally
       (try_except
          (py_bind (open_write script_file script) (\<lambda>u.
           py_bind (subprocess_run [node_path, script_file] Utf8 (Some (timeout CONFIG))) (\<lambda>result.
           py_return (completed_result result))))
          [(is_TimeoutExpired, \<lambda>e. py_return timeout_result),
           (is_Exception, \<lambda>e. py_return (error_result e))])
       (try_except (os_remove script_file) [(any_exception, \<lambda>e. py_return ())])"

section \<open>Notions used in the statements\<close>

text \<open>
  The two halves of \<open>execute_script\<close>: what its \<open>try\<close> block does before it builds the
  result, and its \<open>finally\<close> block.
\<close>

definition write_and_run :: "string \<Rightarrow> string \<Rightarrow> completed_process py" where
  "write_and_run node_path script =
     py_bind (open_write script_file script)
       (\<lambda>u. subprocess_run [node_path, script_file] Utf8 (Some (timeout CONFIG)))"

definition cleanup :: "unit py" where
  "cleanup = try_except (os_remove script_file) [(any_exception, \<lambda>e. py_return ())]"

text \<open>What the \<open>except\<close> clauses of \<open>execute_script\<close> make of the outcome of its \<open>try\<close> block.\<close>

fun handled :: "exn + completed_process \<Rightarrow> exn + pydict" where
  "handled (Inr result) = Inr (completed_result result)"
| "handled (Inl (TimeoutExpired cmd t)) = Inr timeout_result"
| "handled (Inl (Exception t m)) = Inr (error_result (Exception t m))"
| "handled (Inl (BaseException t m)) = Inl (BaseException t m)"

text \<open>The host lets the program write a file at the path.\<close>

definition writable :: "host \<Rightarrow> string \<Rightarrow> bool" where
  "writable h path =
     (fs h path \<noteq> Some Dir \<and> open_error h path = None \<and> write_error h path = None)"

text \<open>The paths that the program has opened for writing, in the order of the calls.\<close>

fun written_files :: "event list \<Rightarrow> string list" where
  "written_files [] = []"
| "written_files (OpenWrite path content # evs) = path # written_files evs"
| "written_files (ev # evs) = written_files evs"

text \<open>
  The fields of an \<open>ExecutionResult\<close> in a dictionary of \<open>execute_script\<close>:
  \<open>success\<close>, \<open>output\<close> (the standard output), \<open>error\<close> (the standard error, or
  \<open>None\<close>), \<open>return_code\<close> and, under \<open>details\<close>, the three output statistics.
\<close>

definition has_bool :: "pydict \<Rightarrow> string \<Rightarrow> bool" where
  "has_bool d k = (case map_of d k of Some (PBool b) \<Rightarrow> True | other \<Rightarrow> False)"

definition has_int :: "pydict \<Rightarrow> string \<Rightarrow> bool" where
  "has_int d k = (case map_of d k of Some (PInt i) \<Rightarrow> True | other \<Rightarrow> False)"

definition has_str :: "pydict \<Rightarrow> string \<Rightarrow> bool" where
  "has_str d k = (case map_of d k of Some (PStr s) \<Rightarrow> True | other \<Rightarrow> False)"

definition has_optional_str :: "pydict \<Rightarrow> string \<Rightarrow> bool" where
  "has_optional_str d k =
     (case map_of d k of Some (PStr s) \<Rightarrow> True | Some PNone \<Rightarrow> True | other \<Rightarrow> False)"

definition output_stats :: "pydict \<Rightarrow> bool" where
  "output_stats d =
     (case map_of d ''details'' of
        Some (PDict st) \<Rightarrow>
          has_int st ''stdout_lines'' \<and> has_int st ''stderr_lines''
          \<and> has_int st ''total_output_chars''
      | other \<Rightarrow> False)"

definition execution_result_fields :: "pydict \<Rightarrow> bool" where
  "execution_result_fields d =
     (has_bool d ''success'' \<and> has_str d ''output'' \<and> has_optional_str d ''error''
      \<and> has_int d ''return_code'' \<and> output_stats d)"

definition detail_keys :: "pydict \<Rightarrow> string list" where
  "detail_keys d = (case map_of d ''details'' of Some (PDict st) \<Rightarrow> keys st | other \<Rightarrow> [])"

text \<open>
  The lookup that \<open>find_executables\<close> runs for an executable, and its failure:
  \<open>subprocess.run\<close> raises (the command cannot be started, its output is not text
  of the locale), or the command exits with a status other than 0.
\<close>

definition lookup_command :: "host \<Rightarrow> string \<Rightarrow> string list" where
  "lookup_command h name = [if os_name h = ''nt'' then ''where'' else ''which'', name]"

definition lookup_fails :: "host \<Rightarrow> string \<Rightarrow> bool" where
  "lookup_fails h name =
     (case fst (subprocess_run (lookup_command h name) Locale None h) of
        Inl e \<Rightarrow> True
      | Inr result \<Rightarrow> returncode result \<noteq> 0)"

text \<open>
  A single-quoted string literal of JavaScript, read from the character after its
  opening quote: the literal ends at the first quote that no backslash escapes, a
  backslash takes the next character with it, and a line break before the closing quote
  leaves the literal unterminated. The result is the text between the quotes and the
  text after the closing quote.
\<close>

fun js_sq_literal :: "string \<Rightarrow> (string \<times> string) option" where
  "js_sq_literal [] = None"
| "js_sq_literal (c # cs) =
     (if c = CHR 0x27 then Some ([], cs)
      else if c = CHR 0x0A \<or> c = CHR 0x0D then None
      else if c = CHR 0x5C then
        (case cs of
           [] \<Rightarrow> None
         | d # ds \<Rightarrow>
             (case js_sq_literal ds of
                None \<Rightarrow> None
              | Some (body, rest) \<Rightarrow> Some (c # d # body, rest)))
      else
        (case js_sq_literal cs of
           None \<Rightarrow> None
         | Some (body, rest) \<Rightarrow> Some (c # body, rest)))"

text \<open>
  The literal that the research script opens with \<open>const url = '\<close>, the last
  characters of \<open>research_head\<close>.
\<close>

definition url_literal :: "string \<Rightarrow> (string \<times> string) option" where
  "url_literal script = js_sq_literal (drop (length (base_config @ research_head)) script)"

text \<open>
  Hosts for the examples. \<open>plain_host\<close> is a POSIX host with an empty working directory
  and a UTF-8 locale that refuses nothing and runs the given programs; the message of
  its decoding errors is the one of a byte FF at the start, the only bytes of the
  examples that are not text. \<open>quiet_child\<close> is a child that touches no file and whose
  pipes close when it exits.
\<close>

definition stray_byte_message :: string where
  "stray_byte_message =
     [CHR 0x27] @ ''utf-8' codec can't decode byte 0xff in position 0: invalid start byte''"

definition plain_host :: "(string list \<Rightarrow> exn + child) \<Rightarrow> host" where
  "plain_host progs =
     \<lparr>os_name = ''posix'', fs = Map.empty, open_error = (\<lambda>path. None),
      write_error = (\<lambda>path. None), remove_error = (\<lambda>path. None),
      programs = (\<lambda>argv files. progs argv),
      locale_decode = (\<lambda>bytes. if utf8_ok bytes then Inr bytes else Inl stray_byte_message),
      decode_message = (\<lambda>bytes. stray_byte_message),
      trace = []\<rparr>"

definition quiet_child :: "nat \<Rightarrow> int \<Rightarrow> string \<Rightarrow> string \<Rightarrow> child" where
  "quiet_child t code out err =
     \<lparr>runtime = t, pipes_close = t, exit_status = code, stdout_bytes = out,
      stderr_bytes = err, effect = (\<lambda>t files. files)\<rparr>"

text \<open>
  Three hosts with one program each: a child that prints \<open>done\<close> and exits with
  status 0 after one time unit, a child that writes to both streams and exits with
  status 3, and a child that would run for 301 time units.
\<close>

definition quick_host :: host where
  "quick_host = plain_host (\<lambda>argv. Inr (quiet_child 1 0 ''done'' []))"

definition failing_host :: host where
  "failing_host = plain_host (\<lambda>argv. Inr (quiet_child 2 3 ''out'' ''err''))"

definition slow_host :: host where
  "slow_host = plain_host (\<lambda>argv. Inr (quiet_child 301 0 ''out'' []))"




text \<open>
  A working directory that already holds a \<open>temp_automation.js\<close> the program may
  overwrite, but whose entries it may not remove.
\<close>

definition readonly_dir_host :: host where
  "readonly_dir_host =
     quick_host
       \<lparr>fs := [script_file \<mapsto> File ''old''],
        remove_error := (\<lambda>path. Some (Exception ''PermissionError''
                                         ''[Errno 13] Permission denied''))\<rparr>"

text \<open>A host with \<open>which\<close> and without \<open>node\<close> and \<open>npm\<close>: both lookups exit with status 1.\<close>

definition bare_host :: host where
  "bare_host =
     plain_host (\<lambda>argv. if argv = [''which'', ''node''] \<or> argv = [''which'', ''npm'']
                          then Inr (quiet_child 1 1 [] [])
                          else Inl (Exception ''FileNotFoundError''
                                      ''[Errno 2] No such file or directory''))"

text \<open>A working directory that holds \<open>node_modules\<close>, on a host without any program.\<close>

definition installed_host :: host where
  "installed_host =
     (plain_host (\<lambda>argv. Inl (Exception ''FileNotFoundError''
                                  ''[Errno 2] No such file or directory'')))
       \<lparr>fs := [''node_modules'' \<mapsto> Dir]\<rparr>"

section \<open>The structure of \<open>execute_script\<close>\<close>

lemma timeout_CONFIG: "timeout CONFIG = 300"
  by (simp add: CONFIG_def)

lemma str_int_300: "str_int 300 = ''300''"
  by (simp add: str_int_def digits.simps char_of_def bit_0)

lemma open_write_ok:
  "writable h path \<Longrightarrow>
   open_write path content h =
     (Inr (), h\<lparr>trace := trace h @ [OpenWrite path content],
                fs := (fs h)(path \<mapsto> File content)\<rparr>)"
  by (auto simp: writable_def open_write_def Let_def split: option.splits fsnode.splits)

lemma cleanup_never_raises: "fst (cleanup h) = Inr ()"
  by (simp add: cleanup_def try_except_def os_remove_def Let_def any_exception_def py_return_def
      split: option.splits fsnode.splits)

text \<open>
  \<open>execute_script\<close> returns what the \<open>except\<close> clauses make of the \<open>try\<close> block, and
  leaves the host as the \<open>finally\<close> block leaves it.
\<close>

lemma execute_script_eq:
  "execute_script node_path script h =
     (handled (fst (write_and_run node_path script h)),
      snd (cleanup (snd (write_and_run node_path script h))))"
proof -
  obtain r h1 where b: "write_and_run node_path script h = (r, h1)"
    by (cases "write_and_run node_path script h")
  obtain h2 where c: "cleanup h1 = (Inr (), h2)"
    using cleanup_never_raises [of h1] by (cases "cleanup h1") simp
  have body:
    "py_bind (open_write script_file script) (\<lambda>u.
       py_bind (subprocess_run [node_path, script_file] Utf8 (Some (timeout CONFIG))) (\<lambda>result.
       py_return (completed_result result))) h =
     (case r of Inl e \<Rightarrow> Inl e | Inr x \<Rightarrow> Inr (completed_result x), h1)"
    using b
    by (auto simp: write_and_run_def py_bind_def py_return_def split: prod.splits sum.splits)
  show ?thesis
    by (cases r rule: handled.cases)
      (simp_all add: execute_script_def try_finally_def try_except_def body b c
        cleanup_def [symmetric] py_return_def)
qed

text \<open>
  When the host accepts the write, the \<open>try\<close> block runs the child on the files that
  hold the script, with the timeout of \<open>CONFIG\<close>.
\<close>

lemma write_and_run_child:
  assumes "writable h script_file"
    and "programs h [node_path, script_file] ((fs h)(script_file \<mapsto> File script)) = Inr c"
  shows "fst (write_and_run node_path script h) =
           (if timeout CONFIG < int (max (runtime c) (pipes_close c))
            then Inl (TimeoutExpired [node_path, script_file] (timeout CONFIG))
            else read_streams
                   (h\<lparr>trace := trace h @ [OpenWrite script_file script],
                      fs := (fs h)(script_file \<mapsto> File script)\<rparr>) Utf8 c)"
  using assms
  by (simp add: write_and_run_def py_bind_def open_write_ok subprocess_run_def Let_def)

text \<open>Streams that are UTF-8 are read as they are, but for their line ends.\<close>

lemma read_streams_utf8:
  assumes "utf8_ok (stdout_bytes c)" and "utf8_ok (stderr_bytes c)"
  shows "read_streams h Utf8 c =
           Inr \<lparr>returncode = exit_status c, stdout = translate_newlines (stdout_bytes c),
                stderr = translate_newlines (stderr_bytes c)\<rparr>"
  using assms by (simp add: read_streams_def decode_def)


lemma write_and_run_completed:
  assumes "writable h script_file"
    and "programs h [node_path, script_file] ((fs h)(script_file \<mapsto> File script)) = Inr c"
    and "int (runtime c) \<le> timeout CONFIG"
    and "int (pipes_close c) \<le> timeout CONFIG"
    and "utf8_ok (stdout_bytes c)"
    and "utf8_ok (stderr_bytes c)"
  shows "fst (write_and_run node_path script h) =
           Inr \<lparr>returncode = exit_status c, stdout = translate_newlines (stdout_bytes c),
                stderr = translate_newlines (stderr_bytes c)\<rparr>"
  using assms by (simp add: write_and_run_child read_streams_utf8)



text \<open>Text of ASCII characters is UTF-8.\<close>

lemma utf8_ok_ascii: "\<forall>c \<in> set s. (of_char c :: nat) < 0x80 \<Longrightarrow> utf8_ok s"
  by (induction s) (simp_all add: utf8_seq_len_def)

lemma write_and_run_fs:
  assumes "writable h script_file"
    and "programs h [node_path, script_file] ((fs h)(script_file \<mapsto> File script)) = Inr c"
  shows "fs (snd (write_and_run node_path script h)) =
           effect c
             (if timeout CONFIG < int (max (runtime c) (pipes_close c))
              then nat (timeout CONFIG) else max (runtime c) (pipes_close c))
             ((fs h)(script_file \<mapsto> File script))"
  using assms
  by (simp add: write_and_run_def py_bind_def open_write_ok subprocess_run_def Let_def)

lemma write_and_run_remove_error:
  "remove_error (snd (write_and_run node_path script h)) = remove_error h"
  by (simp add: write_and_run_def py_bind_def open_write_def subprocess_run_def Let_def
      split: option.splits fsnode.splits sum.splits prod.splits)

lemma write_and_run_trace:
  "trace (snd (write_and_run node_path script h)) =
     trace h @ OpenWrite script_file script #
       (if writable h script_file
        then [SubprocessRun [node_path, script_file] (Some (timeout CONFIG))] else [])"
  by (simp add: write_and_run_def py_bind_def open_write_def subprocess_run_def Let_def writable_def
      split: option.splits fsnode.splits sum.splits prod.splits)

text \<open>The \<open>finally\<close> block: the file is gone when the host lets it go.\<close>

lemma cleanup_fs:
  "fs (snd (cleanup h)) script_file =
     (case fs h script_file of
        Some (File content) \<Rightarrow>
          (if remove_error h script_file = None then None else Some (File content))
      | other \<Rightarrow> other)"
  by (simp add: cleanup_def try_except_def os_remove_def Let_def any_exception_def py_return_def
      split: option.splits fsnode.splits)

lemma cleanup_trace: "trace (snd (cleanup h)) = trace h @ [OsRemove script_file]"
  by (simp add: cleanup_def try_except_def os_remove_def Let_def any_exception_def py_return_def
      split: option.splits fsnode.splits)

lemma execute_script_trace:
  "trace (snd (execute_script node_path script h)) =
     trace h @ OpenWrite script_file script #
       (if writable h script_file
        then [SubprocessRun [node_path, script_file] (Some (timeout CONFIG))] else [])
       @ [OsRemove script_file]"
  by (simp add: execute_script_eq cleanup_trace write_and_run_trace)

lemma written_files_append: "written_files (xs @ ys) = written_files xs @ written_files ys"
  by (induction xs rule: written_files.induct) simp_all

section \<open>The structure of \<open>find_executables\<close> and of \<open>create_script\<close>\<close>

lemma split_on_not_Nil: "split_on sep s \<noteq> []"
  by (induction s) (simp_all split: list.splits)

lemma subprocess_run_os_name [simp]:
  "os_name (snd (subprocess_run argv enc tmo h)) = os_name h"
  by (simp add: subprocess_run_def Let_def split: sum.splits option.splits)

lemma subprocess_run_programs [simp]:
  "programs (snd (subprocess_run argv enc tmo h)) = programs h"
  by (simp add: subprocess_run_def Let_def split: sum.splits option.splits)

text \<open>One lookup never raises: it gives \<open>None\<close> when it fails, and a path otherwise.\<close>

lemma find_executable_eq:
  "find_executable name h =
     (if lookup_fails h name then Inr None
      else Inr (Some (hd (split_on (CHR 0x0A)
             (strip (stdout (projr (fst (subprocess_run (lookup_command h name) Locale None
                                           h)))))))),
      snd (subprocess_run (lookup_command h name) Locale None h))"
proof -
  obtain r h1 where run: "subprocess_run (lookup_command h name) Locale None h = (r, h1)"
    by (cases "subprocess_run (lookup_command h name) Locale None h")
  show ?thesis
  proof (cases r)
    case (Inl e)
    with run show ?thesis
      by (simp add: find_executable_def try_except_def py_bind_def lookup_fails_def
          lookup_command_def [symmetric] any_exception_def py_return_def)
  next
    case (Inr result)
    obtain p ps where s: "split_on (CHR 0x0A) (strip (stdout result)) = p # ps"
      using split_on_not_Nil [of "CHR 0x0A" "strip (stdout result)"]
      by (cases "split_on (CHR 0x0A) (strip (stdout result))") auto
    from Inr run show ?thesis
      by (simp add: find_executable_def try_except_def py_bind_def lookup_fails_def
          lookup_command_def [symmetric] any_exception_def py_return_def index0_def s)
  qed
qed

text \<open>The two ends of the literal that holds the URL of the research script.\<close>

lemma research_head_opens_literal:
  "research_head = [CHR 0x0A] @ ''                const url = '' @ [CHR 0x27]"
  by (simp add: research_head_def text_lines_def)

lemma research_goto_closes_literal:
  "research_goto = CHR 0x27 # CHR '';'' # CHR 0x0A # drop 3 research_goto"
  by (simp add: research_goto_def text_lines_def)

lemma js_sq_literal_plain:
  "\<forall>c \<in> set u. c \<notin> {CHR 0x27, CHR 0x5C, CHR 0x0A, CHR 0x0D} \<Longrightarrow>
   js_sq_literal (u @ CHR 0x27 # rest) = Some (u, rest)"
  by (induction u) simp_all

lemma create_script_research:
  "create_script ''research'' kwargs =
     base_config @ research_head
       @ (case kwargs ''url'' of None \<Rightarrow> ''https://example.com'' | Some u \<Rightarrow> u)
       @ research_goto @ str_int (analysis_timeout CONFIG) @ research_rest @ script_tail"
  by (simp add: create_script_def)

section \<open>The transient script file\<close>

text \<open>
  Claim C1, as amended. On every way out of \<open>execute_script\<close> (the child exits with
  status zero or not, the timeout expires, any other exception is raised, also one that
  goes on to the caller) the last thing the call does is \<open>os.remove\<close> of the
  transient script file, and when the host does not refuse that removal no file is left
  at \<open>temp_automation.js\<close> after the call. An error of the removal itself is swallowed
  by \<open>except: pass\<close>.
\<close>

theorem transient_file_removed:
  assumes "remove_error h script_file = None"
  shows "(\<exists>evs. trace (snd (execute_script node_path script h)) = evs @ [OsRemove script_file])
         \<and> (\<forall>content. fs (snd (execute_script node_path script h)) script_file
                         \<noteq> Some (File content))"
  using assms
  by (simp add: execute_script_eq cleanup_fs cleanup_trace write_and_run_remove_error
      split: option.splits fsnode.splits)

theorem transient_file_removed_witness:
  "remove_error quick_host script_file = None
   \<and> (\<exists>evs. trace (snd (execute_script ''node'' ''console.log(1)'' quick_host))
               = evs @ [OsRemove script_file])
   \<and> (\<forall>content. fs (snd (execute_script ''node'' ''console.log(1)'' quick_host)) script_file
                    \<noteq> Some (File content))"
proof -
  have r: "remove_error quick_host script_file = None"
    by (simp add: quick_host_def plain_host_def)
  from transient_file_removed [OF r] r show ?thesis
    by simp
qed

text \<open>
  The claim as it is written fails where the host refuses the removal: in a
  directory whose entries may not be removed, the call returns the result of a
  successful run and the script file is still there.
\<close>

theorem transient_file_left_counterexample:
  "fst (execute_script ''node'' ''console.log(1)'' readonly_dir_host) =
     Inr (completed_result \<lparr>returncode = 0, stdout = ''done'', stderr = []\<rparr>)
   \<and> fs (snd (execute_script ''node'' ''console.log(1)'' readonly_dir_host)) script_file
       = Some (File ''console.log(1)'')"
proof -
  let ?c = "quiet_child 1 0 ''done'' []"
  have w: "writable readonly_dir_host script_file"
    by (simp add: writable_def readonly_dir_host_def quick_host_def plain_host_def)
  have p: "programs readonly_dir_host [''node'', script_file]
             ((fs readonly_dir_host)(script_file \<mapsto> File ''console.log(1)'')) = Inr ?c"
    by (simp add: readonly_dir_host_def quick_host_def plain_host_def)
  have u: "utf8_ok ''done''"
    by (rule utf8_ok_ascii) simp
  have r: "fst (write_and_run ''node'' ''console.log(1)'' readonly_dir_host) =
             Inr \<lparr>returncode = 0, stdout = ''done'', stderr = []\<rparr>"
    using u
    by (subst write_and_run_completed [OF w p]) (simp_all add: quiet_child_def timeout_CONFIG)
  have f: "fs (snd (write_and_run ''node'' ''console.log(1)'' readonly_dir_host)) script_file
             = Some (File ''console.log(1)'')"
    by (subst write_and_run_fs [OF w p]) (simp add: quiet_child_def)
  have e: "remove_error (snd (write_and_run ''node'' ''console.log(1)'' readonly_dir_host))
             script_file \<noteq> None"
    by (simp add: write_and_run_remove_error readonly_dir_host_def)
  show ?thesis
    using e by (simp add: execute_script_eq r cleanup_fs f)
qed

text \<open>
  Claim C6, as amended. Every invocation of \<open>execute_script\<close> writes the script to the
  file \<open>temp_automation.js\<close> of the working directory before it runs the child with
  that file as its only argument (and with the timeout of 300), and removes that file
  last. The name is a constant: every invocation uses the same one.
\<close>

theorem execute_script_file_name:
  "trace (snd (execute_script node_path script h)) =
     trace h @ OpenWrite ''temp_automation.js'' script #
       (if writable h ''temp_automation.js''
        then [SubprocessRun [node_path, ''temp_automation.js''] (Some 300)] else [])
       @ [OsRemove ''temp_automation.js'']"
  by (simp add: execute_script_trace timeout_CONFIG) (simp add: script_file_def)

text \<open>
  The claim as it is written asks for a name that no two invocations share; two
  invocations in a row, with different scripts, write to the same name.
\<close>

theorem same_file_name_counterexample:
  "written_files
     (trace (snd (execute_script ''node'' ''console.log(2)''
                    (snd (execute_script ''node'' ''console.log(1)'' quick_host)))))
   = [''temp_automation.js'', ''temp_automation.js'']"
  by (simp add: execute_script_trace written_files_append)
    (simp add: quick_host_def plain_host_def script_file_def)

section \<open>The result of \<open>execute_script\<close>\<close>

text \<open>
  Claim C2. In every invocation of \<open>execute_script\<close> whose child process runs longer
  than the configured timeout (\<open>CONFIG["timeout"]\<close>, 300), the call does not re-raise
  \<open>TimeoutExpired\<close>: it returns a dictionary with \<open>success = False\<close> and an error
  message that states the bound of 300 seconds.
\<close>

theorem execute_script_timeout:
  assumes "writable h script_file"
    and "programs h [node_path, script_file] ((fs h)(script_file \<mapsto> File script)) = Inr c"
    and "timeout CONFIG < int (runtime c)"
  shows "\<exists>d. fst (execute_script node_path script h) = Inr d
           \<and> map_of d ''success'' = Some (PBool False)
           \<and> map_of d ''error'' =
                Some (PStr ''Execution timeout after 300 seconds - process was terminated for safety'')"
proof -
  have "timeout CONFIG < int (max (runtime c) (pipes_close c))"
    using assms(3) by simp
  then have "fst (write_and_run node_path script h) =
          Inl (TimeoutExpired [node_path, script_file] (timeout CONFIG))"
    using assms(1,2) by (simp add: write_and_run_child)
  then have "fst (execute_script node_path script h) = Inr timeout_result"
    by (simp add: execute_script_eq)
  then show ?thesis
    by (simp add: timeout_result_def timeout_CONFIG str_int_300)
qed

text \<open>A script that loops for ever, on a host whose child would run for 301 time units.\<close>

theorem execute_script_timeout_witness:
  "writable slow_host script_file
   \<and> timeout CONFIG < int (runtime (quiet_child 301 0 ''out'' []))
   \<and> (\<exists>d. fst (execute_script ''node'' ''while (true) {}'' slow_host) = Inr d
          \<and> map_of d ''success'' = Some (PBool False)
          \<and> map_of d ''error'' =
               Some (PStr ''Execution timeout after 300 seconds - process was terminated for safety''))"
proof -
  let ?h = "slow_host"
  have w: "writable ?h script_file"
    by (simp add: writable_def slow_host_def plain_host_def)
  have p: "programs ?h [''node'', script_file] ((fs ?h)(script_file \<mapsto> File ''while (true) {}''))
             = Inr (quiet_child 301 0 ''out'' [])"
    by (simp add: slow_host_def plain_host_def)
  have t: "timeout CONFIG < int (runtime (quiet_child 301 0 ''out'' []))"
    by (simp add: quiet_child_def timeout_CONFIG)
  from execute_script_timeout [OF w p t] w t
  show ?thesis
    by simp
qed






text \<open>
  Claim C7, as amended. Every dictionary that \<open>execute_script\<close> returns has
  \<open>success\<close>, \<open>error\<close> and \<open>details\<close>. When the child has exited it has all the fields
  of an \<open>ExecutionResult\<close>: \<open>success\<close>, \<open>output\<close>, \<open>error\<close>, \<open>return_code\<close> and
  the three output statistics. After a timeout it has only \<open>success\<close>, \<open>error\<close>,
  \<open>execution_time\<close> and a \<open>timeout_reason\<close> detail; after another exception only
  \<open>success\<close>, \<open>error\<close> and the details \<open>exception_type\<close> and \<open>exception_message\<close>.
\<close>

theorem execute_script_result_fields:
  assumes "fst (execute_script node_path script h) = Inr d"
  shows "has_bool d ''success'' \<and> has_optional_str d ''error''
         \<and> (case fst (write_and_run node_path script h) of
               Inr result \<Rightarrow>
                 execution_result_fields d
                 \<and> keys d = [''success'', ''output'', ''error'', ''return_code'',
                             ''execution_time'', ''details'']
             | Inl e \<Rightarrow>
                 if is_TimeoutExpired e
                 then keys d = [''success'', ''error'', ''execution_time'', ''details'']
                      \<and> detail_keys d = [''timeout_reason'']
                 else keys d = [''success'', ''error'', ''details'']
                      \<and> detail_keys d = [''exception_type'', ''exception_message''])"
proof (cases "fst (write_and_run node_path script h)" rule: handled.cases)
  case (1 result)
  with assms have "d = completed_result result"
    by (simp add: execute_script_eq)
  with 1 show ?thesis
    by (simp add: completed_result_def execution_result_fields_def has_bool_def has_str_def
        has_optional_str_def has_int_def output_stats_def keys_def)
next
  case (2 cmd t)
  with assms have "d = timeout_result"
    by (simp add: execute_script_eq)
  with 2 show ?thesis
    by (simp add: timeout_result_def has_bool_def has_optional_str_def keys_def detail_keys_def)
next
  case (3 t m)
  with assms have "d = error_result (Exception t m)"
    by (simp add: execute_script_eq)
  with 3 show ?thesis
    by (simp add: error_result_def has_bool_def has_optional_str_def keys_def detail_keys_def)
next
  case (4 t m)
  with assms show ?thesis
    by (simp add: execute_script_eq)
qed

text \<open>A run that exits with status 3: the result has every field.\<close>

theorem execute_script_result_fields_witness:
  "fst (execute_script ''node'' ''process.exit(3)'' failing_host)
     = Inr (completed_result \<lparr>returncode = 3, stdout = ''out'', stderr = ''err''\<rparr>)
   \<and> execution_result_fields
       (completed_result \<lparr>returncode = 3, stdout = ''out'', stderr = ''err''\<rparr>)"
proof -
  let ?h = "failing_host"
  have w: "writable ?h script_file"
    by (simp add: writable_def failing_host_def plain_host_def)
  have p: "programs ?h [''node'', script_file] ((fs ?h)(script_file \<mapsto> File ''process.exit(3)''))
             = Inr (quiet_child 2 3 ''out'' ''err'')"
    by (simp add: failing_host_def plain_host_def)
  have o: "utf8_ok ''out''" and u: "utf8_ok ''err''"
    by (rule utf8_ok_ascii, simp)+
  have r: "fst (write_and_run ''node'' ''process.exit(3)'' ?h)
             = Inr \<lparr>returncode = 3, stdout = ''out'', stderr = ''err''\<rparr>"
    using o u
    by (subst write_and_run_completed [OF w p]) (simp_all add: quiet_child_def timeout_CONFIG)
  then have e: "fst (execute_script ''node'' ''process.exit(3)'' ?h)
             = Inr (completed_result \<lparr>returncode = 3, stdout = ''out'', stderr = ''err''\<rparr>)"
    by (simp add: execute_script_eq)
  from execute_script_result_fields [OF e] r e show ?thesis
    by simp
qed

text \<open>
  The claim as it is written fails after a timeout: the dictionary returned then has no
  standard output, no exit code and no output statistics.
\<close>

theorem timeout_result_fields_counterexample:
  "fst (execute_script ''node'' ''while (true) {}'' slow_host) = Inr timeout_result
   \<and> \<not> execution_result_fields timeout_result
   \<and> keys timeout_result = [''success'', ''error'', ''execution_time'', ''details'']"
proof -
  have w: "writable slow_host script_file"
    by (simp add: writable_def plain_host_def slow_host_def)
  have p: "programs slow_host [''node'', script_file]
             ((fs slow_host)(script_file \<mapsto> File ''while (true) {}''))
             = Inr (quiet_child 301 0 ''out'' [])"
    by (simp add: plain_host_def slow_host_def)
  have "fst (write_and_run ''node'' ''while (true) {}'' slow_host) =
          Inl (TimeoutExpired [''node'', script_file] (timeout CONFIG))"
    by (simp add: write_and_run_child [OF w p] quiet_child_def timeout_CONFIG)
  then show ?thesis
    by (simp add: execute_script_eq)
      (simp add: timeout_result_def execution_result_fields_def has_str_def keys_def)
qed

section \<open>Composing a script\<close>

text \<open>
  Claim C5, as amended. \<open>create_script\<close> puts the URL of a research request between
  single quotes as it is, with no escaping. When the URL has no single quote, no
  backslash and no line break (it may have double quotes), the literal that
  \<open>const url = '\<close> opens holds exactly the URL and is closed by the quote of the
  template: the URL does not break out of its quoting.
\<close>

theorem research_url_confined:
  assumes "kwargs ''url'' = Some url"
    and "set url \<inter> {CHR 0x27, CHR 0x5C, CHR 0x0A, CHR 0x0D} = {}"
  shows "create_script ''research'' kwargs =
           base_config @ research_head @ url @ research_goto
             @ str_int (analysis_timeout CONFIG) @ research_rest @ script_tail
         \<and> map_option fst (url_literal (create_script ''research'' kwargs)) = Some url"
proof -
  have s: "create_script ''research'' kwargs =
           base_config @ research_head @ url @ research_goto
             @ str_int (analysis_timeout CONFIG) @ research_rest @ script_tail"
    using assms(1) by (simp add: create_script_research)
  obtain g where g: "research_goto = CHR 0x27 # g"
    using research_goto_closes_literal ..
  have plain: "\<forall>c \<in> set url. c \<notin> {CHR 0x27, CHR 0x5C, CHR 0x0A, CHR 0x0D}"
    using assms(2) by blast
  have "url_literal (create_script ''research'' kwargs) =
          js_sq_literal (url @ CHR 0x27 # g
             @ str_int (analysis_timeout CONFIG) @ research_rest @ script_tail)"
    by (simp add: url_literal_def s g)
  also have "\<dots> = Some (url, g @ str_int (analysis_timeout CONFIG) @ research_rest @ script_tail)"
    using plain by (rule js_sq_literal_plain)
  finally show ?thesis
    using s by simp
qed

text \<open>A URL with double quotes stays inside its literal.\<close>

theorem research_url_confined_witness:
  \<open>set ''https://example.com/?q="node"'' \<inter> {CHR 0x27, CHR 0x5C, CHR 0x0A, CHR 0x0D} = {}
   \<and> CHR 0x22 \<in> set ''https://example.com/?q="node"''
   \<and> map_option fst
       (url_literal (create_script ''research'' [''url'' \<mapsto> ''https://example.com/?q="node"'']))
     = Some ''https://example.com/?q="node"''\<close>
proof -
  have k: \<open>[''url'' \<mapsto> ''https://example.com/?q="node"''] ''url''
            = Some ''https://example.com/?q="node"''\<close>
    by simp
  have c: \<open>set ''https://example.com/?q="node"'' \<inter> {CHR 0x27, CHR 0x5C, CHR 0x0A, CHR 0x0D} = {}\<close>
    by simp
  have d: \<open>CHR 0x22 \<in> set ''https://example.com/?q="node"''\<close>
    by simp
  have \<open>map_option fst
       (url_literal (create_script ''research'' [''url'' \<mapsto> ''https://example.com/?q="node"'']))
     = Some ''https://example.com/?q="node"''\<close>
    using research_url_confined
         [where kwargs = \<open>[''url'' \<mapsto> ''https://example.com/?q="node"'']\<close>
            and url = \<open>''https://example.com/?q="node"''\<close>, OF k c]
    by (rule conjunct2)
  with c d show ?thesis
    by (intro conjI)
qed

text \<open>
  The claim as it is written fails for a URL that has a double quote and a single
  quote: the literal ends at the single quote, inside the URL, and the rest of the URL
  is read as code.
\<close>

theorem research_url_breaks_out_counterexample:
  \<open>CHR 0x22 \<in> set ''https://example.com/?q="it's"''
   \<and> map_option fst
       (url_literal (create_script ''research'' [''url'' \<mapsto> ''https://example.com/?q="it's"'']))
     = Some ''https://example.com/?q="it''\<close>
  by (simp add: create_script_research url_literal_def)

section \<open>Discovery and installation\<close>

text \<open>
  Claim C8. \<open>find_executables\<close> never raises: on every host it returns a pair, in
  which a field is \<open>None\<close> exactly when the lookup of that executable fails (the lookup
  command cannot be run, its output cannot be decoded, or it exits with a status other
  than 0); on a host where both lookups fail it returns \<open>(None, None)\<close>.
\<close>

theorem find_executables_never_raises:
  "\<exists>node_path npm_path.
      fst (find_executables h) = Inr (node_path, npm_path)
      \<and> (node_path = None \<longleftrightarrow> lookup_fails h ''node'')
      \<and> (npm_path = None \<longleftrightarrow> lookup_fails (snd (find_executable ''node'' h)) ''npm'')
      \<and> (lookup_fails h ''node'' \<and> lookup_fails (snd (find_executable ''node'' h)) ''npm''
           \<longrightarrow> fst (find_executables h) = Inr (None, None))"
  by (simp add: find_executables_def py_bind_def py_return_def find_executable_eq
      split: prod.splits)

text \<open>A host with neither \<open>node\<close> nor \<open>npm\<close>.\<close>

theorem find_executables_never_raises_witness:
  "lookup_fails bare_host ''node''
   \<and> lookup_fails (snd (find_executable ''node'' bare_host)) ''npm''
   \<and> fst (find_executables bare_host) = Inr (None, None)"
proof -
  have n: "lookup_fails bare_host ''node''"
    by (simp add: lookup_fails_def lookup_command_def bare_host_def plain_host_def
        quiet_child_def subprocess_run_def read_streams_def decode_def Let_def)
  have m: "lookup_fails (snd (find_executable ''node'' bare_host)) ''npm''"
    by (simp add: find_executable_eq)
      (simp add: lookup_fails_def lookup_command_def bare_host_def plain_host_def quiet_child_def
        subprocess_run_def read_streams_def decode_def Let_def)
  from find_executables_never_raises [of bare_host] n m show ?thesis
    by auto
qed

text \<open>
  Claim C9. When \<open>node_modules\<close> exists, \<open>ensure_installation\<close> returns success at
  once and leaves the host as it is: it runs no package manager and writes no
  \<open>package.json\<close>; and so does every further call, whatever its argument.
\<close>

theorem ensure_installation_idempotent:
  assumes "path_exists h ''node_modules''"
  shows "ensure_installation npm_path h =
           (Inr [(''success'', PBool True), (''message'', PStr ''Dependencies already installed'')],
            h)
         \<and> fold (\<lambda>path s. snd (ensure_installation path s)) npm_paths h = h"
proof -
  have one: "\<And>p. ensure_installation p h =
           (Inr [(''success'', PBool True), (''message'', PStr ''Dependencies already installed'')],
            h)"
    using assms by (simp add: ensure_installation_def py_return_def)
  have "fold (\<lambda>path s. snd (ensure_installation path s)) npm_paths h = h"
    by (induction npm_paths) (simp_all add: one)
  with one show ?thesis
    by simp
qed

text \<open>Three calls in a directory that holds \<open>node_modules\<close>: no call to the host is made.\<close>

theorem ensure_installation_idempotent_witness:
  "path_exists installed_host ''node_modules''
   \<and> ensure_installation ''npm'' installed_host =
       (Inr [(''success'', PBool True), (''message'', PStr ''Dependencies already installed'')],
        installed_host)
   \<and> trace (fold (\<lambda>path s. snd (ensure_installation path s)) [''npm'', ''npm'', ''npm'']
               installed_host) = []"
proof -
  have e: "path_exists installed_host ''node_modules''"
    by (simp add: path_exists_def installed_host_def)
  from ensure_installation_idempotent [OF e, of "''npm''" "[''npm'', ''npm'', ''npm'']"] e
  show ?thesis
    by (simp add: installed_host_def plain_host_def)
qed

end
